theory Spec2Isabelle
  imports Main
begin

section \<open>JavaScript values\<close>

text \<open>
  The connectors pass JSON payloads through untouched, test them for truthiness, read
  single properties from them and paste them into template strings. A value is therefore
  modelled as the JSON tree it is, with \<open>undefined\<close> added. Numbers are the integer-valued
  ones that JavaScript holds exactly and prints in plain decimal, those of magnitude
  below 2^53 (a JavaScript number is a double; fractions, NaN, the infinities and larger
  integers are outside the model). An object is the list of its own properties in insertion order, which is
  the order JavaScript enumerates them in unless a key looks like an array index. A
  string is a list of 8-bit characters.
\<close>

datatype jsval =
    JUndefined
  | JNull
  | JBool bool
  | JNum int
  | JStr string
  | JArr "jsval list"
  | JObj "(string \<times> jsval) list"

text \<open>\<open>!v\<close> is \<open>\<not> truthy v\<close>: undefined, null, false, 0 and the empty string are falsy.\<close>

fun truthy :: "jsval \<Rightarrow> bool" where
  "truthy JUndefined = False"
| "truthy JNull = False"
| "truthy (JBool b) = b"
| "truthy (JNum n) = (n \<noteq> 0)"
| "truthy (JStr s) = (s \<noteq> [])"
| "truthy (JArr xs) = True"
| "truthy (JObj kvs) = True"

text \<open>
  \<open>v.k\<close> for the property names the connectors read (\<open>name\<close>, \<open>id\<close>, \<open>data\<close>,
  \<open>message\<close>), none of which lives on a prototype of a JSON value: reading from
  undefined or null is a TypeError (\<open>None\<close>), an object gives its own property or
  undefined, every other value gives undefined.
\<close>

fun js_get :: "jsval \<Rightarrow> string \<Rightarrow> jsval option" where
  "js_get JUndefined k = None"
| "js_get JNull k = None"
| "js_get (JObj kvs) k = Some (case map_of kvs k of None \<Rightarrow> JUndefined | Some v \<Rightarrow> v)"
| "js_get v k = Some JUndefined"

fun digits :: "nat \<Rightarrow> string" where
  "digits n = (if n < 10 then [''0123456789'' ! n]
               else digits (n div 10) @ [''0123456789'' ! (n mod 10)])"

declare digits.simps [simp del]

definition Number_toString :: "int \<Rightarrow> string" where
  "Number_toString n = (if n < 0 then ''-'' @ digits (nat (- n)) else digits (nat n))"

fun join :: "string \<Rightarrow> string list \<Rightarrow> string" where
  "join sep [] = []"
| "join sep [x] = x"
| "join sep (x # y # ys) = x @ sep @ join sep (y # ys)"

text \<open>The string a value turns into inside a template literal \<open>`${v}`\<close>.\<close>

fun ToString :: "jsval \<Rightarrow> string" where
  "ToString JUndefined = ''undefined''"
| "ToString JNull = ''null''"
| "ToString (JBool b) = (if b then ''true'' else ''false'')"
| "ToString (JNum n) = Number_toString n"
| "ToString (JStr s) = s"
| "ToString (JArr xs) =
     join '','' (map (\<lambda>x. if x = JNull \<or> x = JUndefined then [] else ToString x) xs)"
| "ToString (JObj kvs) = ''[object Object]''"

abbreviation dq :: string where
  "dq \<equiv> [CHR 0x22]"

definition hex_digit :: "nat \<Rightarrow> char" where
  "hex_digit d = ''0123456789abcdef'' ! d"

definition escape_char :: "char \<Rightarrow> string" where
  "escape_char c =
    (if c = CHR 0x22 then [CHR 0x5C, CHR 0x22]
     else if c = CHR 0x5C then [CHR 0x5C, CHR 0x5C]
     else if c = CHR 0x08 then [CHR 0x5C, CHR ''b'']
     else if c = CHR 0x0C then [CHR 0x5C, CHR ''f'']
     else if c = CHR 0x0A then [CHR 0x5C, CHR ''n'']
     else if c = CHR 0x0D then [CHR 0x5C, CHR ''r'']
     else if c = CHR 0x09 then [CHR 0x5C, CHR ''t'']
     else if (of_char c :: nat) < 32
       then [CHR 0x5C, CHR ''u'', CHR ''0'', CHR ''0'',
             hex_digit (of_char c div 16), hex_digit (of_char c mod 16)]
     else [c])"

definition quote :: "string \<Rightarrow> string" where
  "quote s = dq @ concat (map escape_char s) @ dq"

text \<open>
  \<open>JSON.stringify(v)\<close>: \<open>None\<close> is the result undefined. An undefined array element is
  written \<open>null\<close>, an undefined property is left out.
\<close>

fun JSON_stringify :: "jsval \<Rightarrow> string option" where
  "JSON_stringify JUndefined = None"
| "JSON_stringify JNull = Some ''null''"
| "JSON_stringify (JBool b) = Some (if b then ''true'' else ''false'')"
| "JSON_stringify (JNum n) = Some (Number_toString n)"
| "JSON_stringify (JStr s) = Some (quote s)"
| "JSON_stringify (JArr xs) =
     Some (''['' @ join '','' (map (\<lambda>x. case JSON_stringify x of None \<Rightarrow> ''null''
                                        | Some s \<Rightarrow> s) xs) @ '']'')"
| "JSON_stringify (JObj kvs) =
     Some (''{'' @ join '','' (concat (map (\<lambda>(k, v). case JSON_stringify v of None \<Rightarrow> []
                                           | Some s \<Rightarrow> [quote k @ '':'' @ s]) kvs)) @ ''}'')"

text \<open>\<open>Object.assign(target, source)\<close> on objects kept as property lists.\<close>

fun set_prop :: "string \<Rightarrow> 'v \<Rightarrow> (string \<times> 'v) list \<Rightarrow> (string \<times> 'v) list" where
  "set_prop k v [] = [(k, v)]"
| "set_prop k v ((k', v') # kvs) =
     (if k = k' then (k, v) # kvs else (k', v') # set_prop k v kvs)"

definition Object_assign :: "(string \<times> 'v) list \<Rightarrow> (string \<times> 'v) list \<Rightarrow> (string \<times> 'v) list" where
  "Object_assign target source = foldl (\<lambda>t (k, v). set_prop k v t) target source"

section \<open>Errors\<close>

text \<open>
  Every exception the connectors can raise. \<open>Error\<close> and \<open>RateLimitExceeded\<close> carry their
  message; \<open>ApiError\<close> and its subclass \<open>ApiAuthError\<close> carry message and status;
  \<open>FetchError\<close> is node-fetch's own error, with its type (\<open>system\<close> for a transport
  failure, \<open>invalid-json\<close> for a body that is not JSON).
\<close>

datatype js_error =
    Error string
  | RateLimitExceeded string
  | ApiError string jsval
  | ApiAuthError string jsval
  | FetchError string
  | TypeError
  | ReferenceError

text \<open>\<open>new Error(msg).message\<close>: the empty string when \<open>msg\<close> is undefined.\<close>

definition Error_message :: "jsval \<Rightarrow> string" where
  "Error_message msg = (if msg = JUndefined then [] else ToString msg)"

definition new_ApiError :: "jsval \<Rightarrow> jsval \<Rightarrow> js_error" where
  "new_ApiError msg status = ApiError (Error_message msg) status"

definition new_ApiAuthError :: "jsval \<Rightarrow> jsval \<Rightarrow> js_error" where
  "new_ApiAuthError msg status = ApiAuthError (Error_message msg) status"

fun instanceof_ApiError :: "js_error \<Rightarrow> bool" where
  "instanceof_ApiError (ApiError m st) = True"
| "instanceof_ApiError (ApiAuthError m st) = True"
| "instanceof_ApiError e = False"

fun error_status :: "js_error \<Rightarrow> jsval" where
  "error_status (ApiError m st) = st"
| "error_status (ApiAuthError m st) = st"
| "error_status e = JUndefined"

section \<open>SortlyConnector\<close>

type_synonym headers = "(string \<times> string) list"

record request =
  req_method :: string
  url :: string
  req_headers :: headers
  req_body :: "string option"

text \<open>
  A node-fetch response: the status, the headers (each name once and in lower case, as
  node-fetch keeps them) and what \<open>response.json()\<close> resolves to (\<open>None\<close>: the body is not JSON
  and the promise rejects).
\<close>

record response =
  status :: nat
  headers :: headers
  json :: "jsval option"

definition ok :: "response \<Rightarrow> bool" where
  "ok r = (200 \<le> status r \<and> status r < 300)"

definition toLowerCase :: "string \<Rightarrow> string" where
  "toLowerCase s = map (\<lambda>c. if 65 \<le> (of_char c :: nat) \<and> (of_char c :: nat) \<le> 90
                             then char_of ((of_char c :: nat) + 32) else c) s"

text \<open>\<open>response.headers.get(name)\<close>: case-insensitive, null when the header is absent.\<close>

definition Headers_get :: "headers \<Rightarrow> string \<Rightarrow> jsval" where
  "Headers_get h name = (case map_of h (toLowerCase name) of None \<Rightarrow> JNull | Some v \<Rightarrow> JStr v)"

text \<open>
  The two libraries the connector calls: \<open>fetch\<close> (\<open>None\<close>: no response arrived) and
  query-string's \<open>stringify\<close>.
\<close>

record env =
  fetch :: "request \<Rightarrow> response option"
  qs_stringify :: "jsval \<Rightarrow> string"

record connector =
  base_url :: jsval
  api_token :: jsval
  rate_limit_max :: jsval
  rate_limit_remaining :: jsval
  rate_limit_reset :: jsval

text \<open>The connector together with the requests it has put on the wire, oldest first.\<close>

record state =
  conn :: connector
  sent :: "request list"

record config =
  cfg_base_url :: jsval
  cfg_api_token :: jsval

definition SortlyConnector :: "config \<Rightarrow> connector" where
  "SortlyConnector cfg =
     \<lparr>base_url = (if truthy (cfg_base_url cfg) then cfg_base_url cfg
                  else JStr ''https://api.sortly.co/api/v1''),
      api_token = cfg_api_token cfg,
      rate_limit_max = JNull,
      rate_limit_remaining = JNull,
      rate_limit_reset = JNull\<rparr>"

record options =
  opt_headers :: "headers option"
  opt_retries :: "jsval"

definition handleNotOk :: "response \<Rightarrow> js_error + jsval" where
  "handleNotOk response =
     (case json response of
        None \<Rightarrow> Inl (FetchError ''invalid-json'')
      | Some result \<Rightarrow>
          if 300 \<le> status response \<and> status response < 400 then Inr result
          else if 400 \<le> status response \<and> status response < 500 then
            (if status response = 401 \<or> status response = 403
             then Inl (new_ApiAuthError
                         (case JSON_stringify result of None \<Rightarrow> JUndefined | Some t \<Rightarrow> JStr t)
                         (JNum (int (status response))))
             else (case js_get result ''message'' of
                     None \<Rightarrow> Inl TypeError
                   | Some m \<Rightarrow> Inl (new_ApiError m (JNum (int (status response))))))
          else if 500 \<le> status response then
            (case js_get result ''message'' of
               None \<Rightarrow> Inl TypeError
             | Some m \<Rightarrow> Inl (new_ApiError m (JNum (int (status response)))))
          else Inl ReferenceError)"

definition default_headers :: "connector \<Rightarrow> headers" where
  "default_headers c =
     [(''Content-Type'', ''application/json''),
      (''User-Agent'', ''Apigrate Sortly Connector/2.x''),
      (''Authorization'', ''Bearer '' @ ToString (api_token c))]"

text \<open>
  The first half of doFetch, up to the \<open>try\<close>: the options handed to \<open>fetch\<close>, with the
  full URL. (The source also defaults \<open>options.retries\<close> to 0 on the caller's object and
  never reads it again.)
\<close>

definition fetchOpts ::
  "env \<Rightarrow> string \<Rightarrow> string \<Rightarrow> jsval \<Rightarrow> jsval \<Rightarrow> options option \<Rightarrow> connector \<Rightarrow> request" where
  "fetchOpts e meth u query payload opts c =
     (let hdrs = (case opts of
                    None \<Rightarrow> default_headers c
                  | Some os \<Rightarrow> (case opt_headers os of
                                 None \<Rightarrow> default_headers c
                               | Some h \<Rightarrow> Object_assign (default_headers c) h));
          qstring = (if truthy query then ''?'' @ qs_stringify e query else []);
          full_url = u @ qstring
      in \<lparr>req_method = meth, url = full_url, req_headers = hdrs,
          req_body = (if truthy payload then JSON_stringify payload else None)\<rparr>)"

text \<open>
  The second half: one call of \<open>fetch\<close>, the rate-limit fields, the status. The
  \<open>catch\<close> of the source rethrows whatever it caught, so errors pass through it.
\<close>

definition doFetch ::
  "env \<Rightarrow> string \<Rightarrow> string \<Rightarrow> jsval \<Rightarrow> jsval \<Rightarrow> options option \<Rightarrow> state
     \<Rightarrow> (js_error + jsval) \<times> state" where
  "doFetch e meth u query payload opts s =
     (let rq = fetchOpts e meth u query payload opts (conn s);
          s1 = s\<lparr>sent := sent s @ [rq]\<rparr>
      in case fetch e rq of
           None \<Rightarrow> (Inl (FetchError ''system''), s1)
         | Some response \<Rightarrow>
             let s2 = s1\<lparr>conn := (conn s1)
                        \<lparr>rate_limit_max := Headers_get (headers response) ''Sortly-Rate-Limit-Max'',
                         rate_limit_remaining :=
                           Headers_get (headers response) ''Sortly-Rate-Limit-Remaining'',
                         rate_limit_reset :=
                           Headers_get (headers response) ''Sortly-Rate-Limit-Reset''\<rparr>\<rparr>
             in if ok response then
                  (if status response = 204 then (Inr (JObj []), s2)
                   else (case json response of
                           None \<Rightarrow> (Inl (FetchError ''invalid-json''), s2)
                         | Some result \<Rightarrow> (Inr result, s2)))
                else (handleNotOk response, s2))"

text \<open>
  The tail shared by createItem, fetchItem and moveItem:
  \<open>if(!result || !result.data) return null; return result.data;\<close>
\<close>

definition data_or_null :: "jsval \<Rightarrow> js_error + jsval" where
  "data_or_null result =
     (if \<not> truthy result then Inr JNull
      else (case js_get result ''data'' of
              None \<Rightarrow> Inl TypeError
            | Some d \<Rightarrow> if \<not> truthy d then Inr JNull else Inr d))"

definition createItem :: "env \<Rightarrow> jsval \<Rightarrow> state \<Rightarrow> (js_error + jsval) \<times> state" where
  "createItem e item s =
     (if \<not> truthy item
      then (Inl (new_ApiError (JStr ''Unable to create item. Data is missing.'') JUndefined), s)
      else (case js_get item ''name'' of
              None \<Rightarrow> (Inl TypeError, s)
            | Some nm \<Rightarrow>
                if \<not> truthy nm
                then (Inl (new_ApiError
                             (JStr (''Unable to create item. Missing '' @ dq @ ''name'' @ dq
                                    @ '' property.'')) JUndefined), s)
                else (case doFetch e ''POST'' (ToString (base_url (conn s)) @ ''/items'')
                             JNull item None s of
                        (Inl ex, s') \<Rightarrow> (Inl ex, s')
                      | (Inr result, s') \<Rightarrow> (data_or_null result, s'))))"


definition fetchItem :: "env \<Rightarrow> jsval \<Rightarrow> jsval \<Rightarrow> state \<Rightarrow> (js_error + jsval) \<times> state" where
  "fetchItem e ident incl s =
     (if \<not> truthy ident
      then (Inl (new_ApiError
                   (JStr (''Unable to fetch item. Missing '' @ dq @ ''id'' @ dq
                          @ '' property.'')) JUndefined), s)
      else (let q = (if truthy incl then JObj [(''include'', incl)] else JNull)
            in case doFetch e ''GET'' (ToString (base_url (conn s)) @ ''/items/'' @ ToString ident)
                      q JUndefined None s of
                 (Inr result, s') \<Rightarrow> (data_or_null result, s')
               | (Inl ex, s') \<Rightarrow>
                   if instanceof_ApiError ex \<and> error_status ex = JNum 404
                   then (Inr JNull, s') else (Inl ex, s')))"

definition moveItem ::
  "env \<Rightarrow> jsval \<Rightarrow> jsval \<Rightarrow> jsval \<Rightarrow> jsval \<Rightarrow> state \<Rightarrow> (js_error + jsval) \<times> state" where
  "moveItem e item_id quantity folder_id leave_zero_quantity s =
     (if \<not> truthy item_id
      then (Inl (new_ApiError (JStr ''Unable to update item. Data is missing.'') JUndefined), s)
      else if quantity = JUndefined \<or> quantity = JNull
      then (Inl (new_ApiError
                   (JStr (''Unable to move item. Missing '' @ dq @ ''quantity'' @ dq
                          @ '' property.'')) JUndefined), s)
      else (let payload = JObj
                  ([(''quantity'', quantity)]
                   @ (if truthy folder_id then [(''folder_id'', folder_id)] else [])
                   @ (if leave_zero_quantity \<noteq> JUndefined \<and> leave_zero_quantity \<noteq> JNull
                      then [(''leave_zero_quantity'', leave_zero_quantity)] else []))
            in case doFetch e ''POST''
                      (ToString (base_url (conn s)) @ ''/items/'' @ ToString item_id @ ''/move'')
                      JNull payload None s of
                 (Inl ex, s') \<Rightarrow> (Inl ex, s')
               | (Inr result, s') \<Rightarrow> (data_or_null result, s')))"


definition updateItem :: "env \<Rightarrow> jsval \<Rightarrow> state \<Rightarrow> (js_error + jsval) \<times> state" where
  "updateItem e item s =
     (if \<not> truthy item
      then (Inl (new_ApiError (JStr ''Unable to update item. Data is missing.'') JUndefined), s)
      else (case js_get item ''id'' of
              None \<Rightarrow> (Inl TypeError, s)
            | Some ident \<Rightarrow>
                if \<not> truthy ident
                then (Inl (new_ApiError
                             (JStr (''Unable to update item. Missing '' @ dq @ ''id'' @ dq
                                    @ '' property.'')) JUndefined), s)
                else (case doFetch e ''PUT''
                             (ToString (base_url (conn s)) @ ''/items/'' @ ToString ident)
                             JNull item None s of
                        (Inl ex, s') \<Rightarrow> (Inl ex, s')
                      | (Inr result, s') \<Rightarrow> (Inr JUndefined, s'))))"


section \<open>SortlyConnector, first version (src/sortly.js)\<close>

text \<open>
  The same class before it kept rate-limit fields: no special case for 204, an
  ApiAuthError without a status, and a handleNotOk that hands the decoded body back for
  every status from 300 on other than 401 and 403.
\<close>

definition handleNotOk_legacy :: "response \<Rightarrow> js_error + jsval" where
  "handleNotOk_legacy response =
     (case json response of
        None \<Rightarrow> Inl (FetchError ''invalid-json'')
      | Some result \<Rightarrow>
          if 300 \<le> status response \<and> status response < 400 then Inr result
          else if 400 \<le> status response \<and> status response < 500 then
            (if status response = 401 \<or> status response = 403
             then Inl (new_ApiAuthError
                         (case JSON_stringify result of None \<Rightarrow> JUndefined | Some t \<Rightarrow> JStr t)
                         JUndefined)
             else Inr result)
          else if 500 \<le> status response then Inr result
          else Inl ReferenceError)"

definition doFetch_legacy ::
  "env \<Rightarrow> string \<Rightarrow> string \<Rightarrow> jsval \<Rightarrow> jsval \<Rightarrow> options option \<Rightarrow> state
     \<Rightarrow> (js_error + jsval) \<times> state" where
  "doFetch_legacy e meth u query payload opts s =
     (let rq = fetchOpts e meth u query payload opts (conn s);
          s1 = s\<lparr>sent := sent s @ [rq]\<rparr>
      in case fetch e rq of
           None \<Rightarrow> (Inl (FetchError ''system''), s1)
         | Some response \<Rightarrow>
             if ok response then
               (case json response of
                  None \<Rightarrow> (Inl (FetchError ''invalid-json''), s1)
                | Some result \<Rightarrow> (Inr result, s1))
             else (handleNotOk_legacy response, s1))"

section \<open>Sortly 1.1.5 (request-promise-native)\<close>

text \<open>
  What handleResponse is given: either the full response the request promise resolved
  with, or the error it rejected with. handleResponse reads \<open>statusCode\<close>, \<open>headers\<close> and
  \<open>body\<close> of the first, and \<open>statusCode\<close>, \<open>message\<close>, \<open>response.headers\<close> and
  \<open>response.body\<close> of the second; a property that the object does not have is \<open>None\<close>
  or undefined. Header names are in lower case, as Node delivers them.
\<close>

record inner_response =
  in_headers :: headers
  in_body :: jsval

record rp_value =
  statusCode :: "nat option"
  message :: jsval
  rp_headers :: "headers option"
  rp_body :: jsval
  rp_response :: "inner_response option"

datatype promise = Resolve rp_value | Reject rp_value

record Sortly_request =
  rq_method :: string
  rq_uri :: string
  rq_body :: jsval

record sortly =
  rate_limit :: jsval
  Sortly_rate_limit_remaining :: jsval
  Sortly_rate_limit_reset :: jsval
  request_id :: jsval

definition Sortly :: sortly where
  "Sortly = \<lparr>rate_limit = JNum 0, Sortly_rate_limit_remaining = JNum 0,
             Sortly_rate_limit_reset = JNum 0, request_id = JNum 0\<rparr>"

record Sortly_env =
  baseRequest :: "Sortly_request \<Rightarrow> promise"
  qs :: "jsval \<Rightarrow> string"

record Sortly_state =
  self :: sortly
  issued :: "Sortly_request list"

text \<open>\<open>headers[k]\<close> on a plain object of strings, and \<open>a || b\<close>.\<close>

definition header :: "headers \<Rightarrow> string \<Rightarrow> jsval" where
  "header h k = (case map_of h k of None \<Rightarrow> JUndefined | Some v \<Rightarrow> JStr v)"

definition js_or :: "jsval \<Rightarrow> jsval \<Rightarrow> jsval" where
  "js_or a b = (if truthy a then a else b)"

definition stringified :: "jsval \<Rightarrow> string" where
  "stringified v = (case JSON_stringify v of None \<Rightarrow> ''undefined'' | Some t \<Rightarrow> t)"

definition on_request :: "Sortly_request \<Rightarrow> nat \<Rightarrow> string" where
  "on_request req sc =
     '' on '' @ rq_method req @ '' '' @ rq_uri req @ '' (HTTP-'' @ ToString (JNum (int sc)) @ '').''"

definition sent_received :: "jsval \<Rightarrow> inner_response \<Rightarrow> string" where
  "sent_received reqbody rr =
     [CHR 0x0A, CHR 0x09] @ ''sent:'' @ (if truthy reqbody then stringified reqbody else [])
     @ [CHR 0x0A, CHR 0x09] @ ''received:'' @ stringified (in_body rr)"

definition handleResponse ::
  "rp_value \<Rightarrow> jsval \<Rightarrow> Sortly_request \<Rightarrow> sortly \<Rightarrow> (js_error + jsval) \<times> sortly" where
  "handleResponse resp reqbody req this =
     (if (case statusCode resp of None \<Rightarrow> False | Some sc \<Rightarrow> 200 \<le> sc \<and> sc < 300) then
        (case rp_headers resp of
           None \<Rightarrow> (Inl TypeError, this)
         | Some h \<Rightarrow>
             let this1 = this\<lparr>rate_limit := header h ''sortly-rate-limit-max'',
                             Sortly_rate_limit_remaining := header h ''sortly-rate-limit-remaining'',
                             Sortly_rate_limit_reset := header h ''sortly-rate-limit-reset'',
                             request_id := header h ''x-request-id''\<rparr>
             in if statusCode resp = Some 204 then (Inr JUndefined, this1)
                else (Inr (rp_body resp), this1))
      else
        (case rp_response resp of
           None \<Rightarrow> (Inl TypeError, this)
         | Some rr \<Rightarrow>
             let this1 = this\<lparr>rate_limit :=
                               js_or (header (in_headers rr) ''sortly-rate-limit-max'')
                                     (rate_limit this),
                             Sortly_rate_limit_remaining :=
                               js_or (header (in_headers rr) ''sortly-rate-limit-remaining'')
                                     (Sortly_rate_limit_remaining this),
                             Sortly_rate_limit_reset :=
                               js_or (header (in_headers rr) ''sortly-rate-limit-reset'')
                                     (Sortly_rate_limit_reset this),
                             request_id := header (in_headers rr) ''x-request-id''\<rparr>
             in (case statusCode resp of
                   None \<Rightarrow> (Inl ReferenceError, this1)
                 | Some sc \<Rightarrow>
                     if 400 \<le> sc \<and> sc < 500 then
                       (if sc = 400 then
                          (Inl (Error (''Request Error'' @ on_request req sc @ '' ''
                                       @ ToString (message resp) @ sent_received reqbody rr)), this1)
                        else if sc = 401 then
                          (Inl (Error (''Authorization Error'' @ on_request req sc @ '' ''
                                       @ ToString (message resp))), this1)
                        else if sc = 404 then
                          (if rq_method req = ''GET'' then (Inr JNull, this1)
                           else (Inl (Error (''Invalid URI'' @ on_request req sc)), this1))
                        else if sc = 429 then
                          (Inl (RateLimitExceeded
                                  (''Sortly rate limit exceeded on '' @ rq_method req @ '' ''
                                   @ rq_uri req @ ''. Try again in ''
                                   @ ToString (Sortly_rate_limit_reset this1) @ '' seconds.'')), this1)
                        else
                          (Inl (Error (''Unhandled Error'' @ on_request req sc @ '' ''
                                       @ ToString (message resp))), this1))
                     else if 500 \<le> sc then
                       (Inl (Error (''Sortly Server Error'' @ on_request req sc
                                    @ sent_received reqbody rr)), this1)
                     else (Inl ReferenceError, this1))))"

text \<open>
  The body shared by get, post, put and delete once the request object is built:
  \<open>try { resp = await this.baseRequest(req); return this.handleResponse(resp, ...) }
  catch(ex) { return this.handleResponse(ex, ...) }\<close>. An exception that handleResponse
  raises inside the \<open>try\<close> is itself caught and handed to handleResponse; it is an Error
  object with neither \<open>statusCode\<close> nor \<open>response\<close>, so that second call raises TypeError
  on \<open>resp.response.headers\<close> before it assigns anything.
\<close>

definition perform ::
  "Sortly_env \<Rightarrow> Sortly_request \<Rightarrow> jsval \<Rightarrow> Sortly_state \<Rightarrow> (js_error + jsval) \<times> Sortly_state" where
  "perform e req reqbody s =
     (let s1 = s\<lparr>issued := issued s @ [req]\<rparr>
      in case baseRequest e req of
           Resolve resp \<Rightarrow>
             (case handleResponse resp reqbody req (self s1) of
                (Inr v, this1) \<Rightarrow> (Inr v, s1\<lparr>self := this1\<rparr>)
              | (Inl ex, this1) \<Rightarrow> (Inl TypeError, s1\<lparr>self := this1\<rparr>))
         | Reject ex \<Rightarrow>
             (case handleResponse ex reqbody req (self s1) of
                (r, this1) \<Rightarrow> (r, s1\<lparr>self := this1\<rparr>)))"

definition with_query :: "Sortly_env \<Rightarrow> string \<Rightarrow> jsval \<Rightarrow> string" where
  "with_query e uri opts = uri @ (if qs e opts \<noteq> [] then ''?'' @ qs e opts else [])"



definition Sortly_put ::
  "Sortly_env \<Rightarrow> string \<Rightarrow> jsval \<Rightarrow> jsval \<Rightarrow> Sortly_state \<Rightarrow> (js_error + jsval) \<times> Sortly_state" where
  "Sortly_put e uri entity opts s =
     perform e \<lparr>rq_method = ''PUT'', rq_uri = with_query e uri opts, rq_body = entity\<rparr> entity s"


text \<open>
  The three shapes request-promise-native produces: the full response of a 2xx answer,
  the StatusCodeError of any other answer (its message is the status, a dash and the
  serialised body) and the RequestError of a transport failure.
\<close>

definition FullResponse :: "nat \<Rightarrow> headers \<Rightarrow> jsval \<Rightarrow> rp_value" where
  "FullResponse sc hs b =
     \<lparr>statusCode = Some sc, message = JUndefined, rp_headers = Some hs, rp_body = b,
      rp_response = None\<rparr>"

definition StatusCodeError :: "nat \<Rightarrow> headers \<Rightarrow> jsval \<Rightarrow> rp_value" where
  "StatusCodeError sc hs b =
     \<lparr>statusCode = Some sc, message = JStr (ToString (JNum (int sc)) @ '' - '' @ stringified b),
      rp_headers = None, rp_body = JUndefined,
      rp_response = Some \<lparr>in_headers = hs, in_body = b\<rparr>\<rparr>"

definition RequestError :: "string \<Rightarrow> rp_value" where
  "RequestError cause =
     \<lparr>statusCode = None, message = JStr cause, rp_headers = None, rp_body = JUndefined,
      rp_response = None\<rparr>"

section \<open>Scenarios\<close>

text \<open>A server that gives the same answer to every request, and a new connector.\<close>

definition answering :: "response \<Rightarrow> env" where
  "answering r = \<lparr>fetch = (\<lambda>rq. Some r), qs_stringify = (\<lambda>q. ''include=photos'')\<rparr>"

definition production :: state where
  "production =
     \<lparr>conn = SortlyConnector \<lparr>cfg_base_url = JUndefined, cfg_api_token = JStr ''secret''\<rparr>,
      sent = []\<rparr>"

definition resolving :: "rp_value \<Rightarrow> Sortly_env" where
  "resolving x = \<lparr>baseRequest = (\<lambda>rq. Resolve x), qs = (\<lambda>opts. [])\<rparr>"

definition rejecting :: "rp_value \<Rightarrow> Sortly_env" where
  "rejecting x = \<lparr>baseRequest = (\<lambda>rq. Reject x), qs = (\<lambda>opts. [])\<rparr>"

definition fresh :: Sortly_state where
  "fresh = \<lparr>self = Sortly, issued = []\<rparr>"

text \<open>A connector that has recorded rate-limit values from an earlier answer.\<close>

definition throttled :: state where
  "throttled =
     production\<lparr>conn := (conn production)\<lparr>rate_limit_max := JStr ''1200'',
                                              rate_limit_remaining := JStr ''0'',
                                              rate_limit_reset := JStr ''30''\<rparr>\<rparr>"

text \<open>Answers of the server, as node-fetch delivers them.\<close>

definition plain_answer :: response where
  "plain_answer = \<lparr>status = 200, headers = [], json = Some (JObj [(''data'', JArr [])])\<rparr>"

definition no_data_answer :: response where
  "no_data_answer = \<lparr>status = 200, headers = [], json = Some (JObj [(''meta'', JNum 1)])\<rparr>"

definition quota_answer :: response where
  "quota_answer =
     \<lparr>status = 200,
      headers = [(''sortly-rate-limit-max'', ''1200''), (''sortly-rate-limit-reset'', ''17'')],
      json = Some (JObj [(''data'', JArr [])])\<rparr>"

definition no_content :: response where
  "no_content = \<lparr>status = 204, headers = [], json = None\<rparr>"

definition multiple_choices :: response where
  "multiple_choices = \<lparr>status = 300, headers = [],
                       json = Some (JObj [(''location'', JStr ''/elsewhere'')])\<rparr>"

definition early_hints :: response where
  "early_hints = \<lparr>status = 103, headers = [], json = Some (JObj [])\<rparr>"

definition unauthorized :: response where
  "unauthorized = \<lparr>status = 401, headers = [],
                   json = Some (JObj [(''error'', JStr ''bad token'')])\<rparr>"

definition unauthorized_html :: response where
  "unauthorized_html = \<lparr>status = 401, headers = [], json = None\<rparr>"

definition forbidden :: response where
  "forbidden = \<lparr>status = 403, headers = [],
                json = Some (JObj [(''error'', JStr ''read only'')])\<rparr>"




text \<open>A request object of Sortly 1.1.5, for each method.\<close>

definition item_request :: "string \<Rightarrow> Sortly_request" where
  "item_request m = \<lparr>rq_method = m, rq_uri = ''/items/7'', rq_body = JUndefined\<rparr>"

section \<open>Auxiliary facts\<close>

lemma sent_doFetch:
  "sent (snd (doFetch e m u q p opts s)) = sent s @ [fetchOpts e m u q p opts (conn s)]"
  by (simp add: doFetch_def Let_def split: option.splits)

lemma snd_case:
  "snd (case p of (Inl ex, s') \<Rightarrow> (f ex, s') | (Inr r, s') \<Rightarrow> (g r, s')) = snd p"
  by (auto split: prod.splits sum.splits)

lemma fst_case:
  "fst (case p of (Inl ex, s') \<Rightarrow> (f ex, s') | (Inr r, s') \<Rightarrow> (g r, s'))
     = (case fst p of Inl ex \<Rightarrow> f ex | Inr r \<Rightarrow> g r)"
  by (auto split: prod.splits sum.splits)

lemma doFetch_2xx:
  assumes "fetch e (fetchOpts e m u q p opts (conn s)) = Some r" and "ok r"
  shows "fst (doFetch e m u q p opts s)
           = (if status r = 204 then Inr (JObj [])
              else case json r of None \<Rightarrow> Inl (FetchError ''invalid-json'') | Some b \<Rightarrow> Inr b)"
  using assms by (simp add: doFetch_def Let_def split: option.splits)

lemma doFetch_not_ok:
  assumes "fetch e (fetchOpts e m u q p opts (conn s)) = Some r" and "\<not> ok r"
  shows "fst (doFetch e m u q p opts s) = handleNotOk r"
  using assms by (simp add: doFetch_def Let_def)

lemma data_or_null_lacking:
  "\<not> truthy b \<or> js_get b ''data'' = Some JUndefined \<Longrightarrow> data_or_null b = Inr JNull"
  by (auto simp: data_or_null_def)

lemma data_or_null_empty: "data_or_null (JObj []) = Inr JNull"
  by (simp add: data_or_null_def)

lemma doFetch_answer_null:
  assumes "fetch e (fetchOpts e m u q p opts (conn s)) = Some r" and "ok r"
    and "status r = 204 \<or> (\<exists>b. json r = Some b \<and> (\<not> truthy b \<or> js_get b ''data'' = Some JUndefined))"
  shows "\<exists>res s'. doFetch e m u q p opts s = (Inr res, s') \<and> data_or_null res = Inr JNull"
proof -
  obtain x s' where d: "doFetch e m u q p opts s = (x, s')"
    by (cases "doFetch e m u q p opts s")
  have "x = (if status r = 204 then Inr (JObj [])
             else case json r of None \<Rightarrow> Inl (FetchError ''invalid-json'') | Some b \<Rightarrow> Inr b)"
    using doFetch_2xx [OF assms(1,2)] d by simp
  with assms(3) d show ?thesis
    by (auto simp: data_or_null_lacking data_or_null_empty)
qed


lemma handleNotOk_auth:
  assumes "json r = Some b" and "JSON_stringify b = Some t"
    and "status r = 401 \<or> status r = 403"
  shows "handleNotOk r = Inl (ApiAuthError t (JNum (int (status r))))"
  using assms by (auto simp: handleNotOk_def new_ApiAuthError_def Error_message_def)

lemma handleNotOk_redirect:
  assumes "json r = Some b" and "300 \<le> status r" and "status r < 400"
  shows "handleNotOk r = Inr b"
  using assms by (simp add: handleNotOk_def)

lemma handleNotOk_informational:
  assumes "status r < 200"
  shows "\<exists>ex. handleNotOk r = Inl ex"
  using assms by (simp add: handleNotOk_def split: option.splits)

lemma handleNotOk_legacy_redirect:
  assumes "json r = Some b" and "300 \<le> status r" and "status r < 400"
  shows "handleNotOk_legacy r = Inr b"
  using assms by (simp add: handleNotOk_legacy_def)

lemma handleNotOk_legacy_informational:
  assumes "status r < 200"
  shows "\<exists>ex. handleNotOk_legacy r = Inl ex"
  using assms by (simp add: handleNotOk_legacy_def split: option.splits)

lemma doFetch_legacy_not_ok:
  assumes "fetch e (fetchOpts e m u q p opts (conn s)) = Some r" and "\<not> ok r"
  shows "fst (doFetch_legacy e m u q p opts s) = handleNotOk_legacy r"
  using assms by (simp add: doFetch_legacy_def Let_def)

lemma sent_doFetch_legacy:
  "sent (snd (doFetch_legacy e m u q p opts s)) = sent s @ [fetchOpts e m u q p opts (conn s)]"
  by (simp add: doFetch_legacy_def Let_def split: option.splits)


lemma decimal_401: "Number_toString 401 = ''401''"
  by code_simp

lemma decimal_403: "Number_toString 403 = ''403''"
  by code_simp


lemma header_names:
  "toLowerCase ''Sortly-Rate-Limit-Max'' = ''sortly-rate-limit-max''"
  "toLowerCase ''Sortly-Rate-Limit-Remaining'' = ''sortly-rate-limit-remaining''"
  "toLowerCase ''Sortly-Rate-Limit-Reset'' = ''sortly-rate-limit-reset''"
  by code_simp+

lemma conn_doFetch:
  assumes "fetch e (fetchOpts e m u q p opts (conn s)) = Some r"
  shows "conn (snd (doFetch e m u q p opts s))
           = (conn s)\<lparr>rate_limit_max := Headers_get (headers r) ''Sortly-Rate-Limit-Max'',
                      rate_limit_remaining := Headers_get (headers r) ''Sortly-Rate-Limit-Remaining'',
                      rate_limit_reset := Headers_get (headers r) ''Sortly-Rate-Limit-Reset''\<rparr>"
  using assms by (simp add: doFetch_def Let_def split: option.splits)

lemma handleResponse_failure_state:
  assumes "rp_response resp = Some rr"
    and "\<not> (case statusCode resp of None \<Rightarrow> False | Some sc \<Rightarrow> 200 \<le> sc \<and> sc < 300)"
  shows "snd (handleResponse resp reqbody req this)
           = this\<lparr>rate_limit := js_or (header (in_headers rr) ''sortly-rate-limit-max'')
                                       (rate_limit this),
                   Sortly_rate_limit_remaining :=
                     js_or (header (in_headers rr) ''sortly-rate-limit-remaining'')
                           (Sortly_rate_limit_remaining this),
                   Sortly_rate_limit_reset :=
                     js_or (header (in_headers rr) ''sortly-rate-limit-reset'')
                           (Sortly_rate_limit_reset this),
                   request_id := header (in_headers rr) ''x-request-id''\<rparr>"
  using assms by (simp add: handleResponse_def Let_def split: option.splits)

lemma handleResponse_success_state:
  assumes "rp_headers resp = Some h" and "statusCode resp = Some sc" and "200 \<le> sc" and "sc < 300"
  shows "snd (handleResponse resp reqbody req this)
           = this\<lparr>rate_limit := header h ''sortly-rate-limit-max'',
                   Sortly_rate_limit_remaining := header h ''sortly-rate-limit-remaining'',
                   Sortly_rate_limit_reset := header h ''sortly-rate-limit-reset'',
                   request_id := header h ''x-request-id''\<rparr>"
  using assms by (simp add: handleResponse_def Let_def)

lemma js_or_header:
  "js_or (header h k) old = (case map_of h k of None \<Rightarrow> old | Some v \<Rightarrow> if v = [] then old else JStr v)"
  by (simp add: js_or_def header_def split: option.splits)


section \<open>Claims\<close>




text \<open>
  C2. A 204 answer. SortlyConnector's doFetch returns the empty object, whatever the body
  is and whether or not it would decode. Sortly 1.1.5 returns nothing at all: the result
  of handleResponse is undefined.
\<close>

theorem no_content_result:
  "(fetch e (fetchOpts e m u q p opts (conn s)) = Some r \<and> status r = 204
      \<longrightarrow> fst (doFetch e m u q p opts s) = Inr (JObj []))
   \<and> (statusCode resp = Some 204 \<and> rp_headers resp = Some h
      \<longrightarrow> fst (handleResponse resp reqbody req this) = Inr JUndefined)"
  by (simp add: doFetch_2xx ok_def handleResponse_def Let_def)

theorem no_content_result_witness:
  "fetch (answering no_content)
     (fetchOpts (answering no_content) ''PUT'' ''https://api.sortly.co/api/v1/items/7'' JNull
        (JObj [(''id'', JNum 7)]) None (conn production)) = Some no_content
   \<and> status no_content = 204 \<and> json no_content = None
   \<and> fst (doFetch (answering no_content) ''PUT'' ''https://api.sortly.co/api/v1/items/7'' JNull
            (JObj [(''id'', JNum 7)]) None production) = Inr (JObj [])
   \<and> statusCode (FullResponse 204 [] JUndefined) = Some 204
   \<and> rp_headers (FullResponse 204 [] JUndefined) = Some []
   \<and> fst (handleResponse (FullResponse 204 [] JUndefined) (JObj [(''id'', JNum 7)])
            (item_request ''PUT'') Sortly) = Inr JUndefined"
proof -
  have h1: "fetch (answering no_content)
     (fetchOpts (answering no_content) ''PUT'' ''https://api.sortly.co/api/v1/items/7'' JNull
        (JObj [(''id'', JNum 7)]) None (conn production)) = Some no_content"
    by (simp add: answering_def)
  have h2: "status no_content = 204" "json no_content = None"
    by (simp_all add: no_content_def)
  have h3: "statusCode (FullResponse 204 [] JUndefined) = Some 204"
    "rp_headers (FullResponse 204 [] JUndefined) = Some []"
    by (simp_all add: FullResponse_def)
  from no_content_result [of "answering no_content" "''PUT''" "''https://api.sortly.co/api/v1/items/7''"
         JNull "JObj [(''id'', JNum 7)]" None production no_content "FullResponse 204 [] JUndefined" "[]"
         "JObj [(''id'', JNum 7)]" "item_request ''PUT''" Sortly]
       h1 h2 h3
  show ?thesis by simp
qed

theorem no_content_counterexample:
  "fst (Sortly_put (resolving (FullResponse 204 [] JUndefined)) ''/items/7''
          (JObj [(''id'', JNum 7)]) JUndefined fresh) = Inr JUndefined"
  by (simp add: Sortly_put_def perform_def resolving_def FullResponse_def handleResponse_def
                Let_def fresh_def)




text \<open>
  C4. The rate-limit fields after an answer. SortlyConnector's doFetch sets each of the
  three fields to the value of its header, and to null when the header is absent (the
  value recorded before is not kept). In Sortly 1.1.5, an answer outside 2xx sets each
  field to the value of its header when the header is present and not empty, and leaves
  the field as it was otherwise; a 2xx answer sets each field, on its own, to the value
  of its header when that header is present.
\<close>

theorem rate_limit_fields_after_a_response:
  "(fetch e (fetchOpts e m u q p opts (conn s)) = Some r \<longrightarrow>
      rate_limit_max (conn (snd (doFetch e m u q p opts s)))
        = (case map_of (headers r) ''sortly-rate-limit-max'' of None \<Rightarrow> JNull | Some v \<Rightarrow> JStr v)
    \<and> rate_limit_remaining (conn (snd (doFetch e m u q p opts s)))
        = (case map_of (headers r) ''sortly-rate-limit-remaining'' of None \<Rightarrow> JNull | Some v \<Rightarrow> JStr v)
    \<and> rate_limit_reset (conn (snd (doFetch e m u q p opts s)))
        = (case map_of (headers r) ''sortly-rate-limit-reset'' of None \<Rightarrow> JNull | Some v \<Rightarrow> JStr v))
   \<and> (rp_response resp = Some rr
        \<and> \<not> (case statusCode resp of None \<Rightarrow> False | Some sc \<Rightarrow> 200 \<le> sc \<and> sc < 300) \<longrightarrow>
      rate_limit (snd (handleResponse resp reqbody req this))
        = (case map_of (in_headers rr) ''sortly-rate-limit-max'' of
             None \<Rightarrow> rate_limit this
           | Some v \<Rightarrow> if v = [] then rate_limit this else JStr v)
    \<and> Sortly_rate_limit_remaining (snd (handleResponse resp reqbody req this))
        = (case map_of (in_headers rr) ''sortly-rate-limit-remaining'' of
             None \<Rightarrow> Sortly_rate_limit_remaining this
           | Some v \<Rightarrow> if v = [] then Sortly_rate_limit_remaining this else JStr v)
    \<and> Sortly_rate_limit_reset (snd (handleResponse resp reqbody req this))
        = (case map_of (in_headers rr) ''sortly-rate-limit-reset'' of
             None \<Rightarrow> Sortly_rate_limit_reset this
           | Some v \<Rightarrow> if v = [] then Sortly_rate_limit_reset this else JStr v))
   \<and> (rp_headers ok_resp = Some h \<and> statusCode ok_resp = Some sc \<and> 200 \<le> sc \<and> sc < 300
        \<longrightarrow>
      (map_of h ''sortly-rate-limit-max'' = Some v1
         \<longrightarrow> rate_limit (snd (handleResponse ok_resp reqbody req this)) = JStr v1)
    \<and> (map_of h ''sortly-rate-limit-remaining'' = Some v2
         \<longrightarrow> Sortly_rate_limit_remaining (snd (handleResponse ok_resp reqbody req this))
               = JStr v2)
    \<and> (map_of h ''sortly-rate-limit-reset'' = Some v3
         \<longrightarrow> Sortly_rate_limit_reset (snd (handleResponse ok_resp reqbody req this))
               = JStr v3))"
proof (intro conjI impI)
  assume a: "fetch e (fetchOpts e m u q p opts (conn s)) = Some r"
  show "rate_limit_max (conn (snd (doFetch e m u q p opts s)))
        = (case map_of (headers r) ''sortly-rate-limit-max'' of None \<Rightarrow> JNull | Some v \<Rightarrow> JStr v)"
    by (simp add: conn_doFetch [OF a] Headers_get_def header_names)
  show "rate_limit_remaining (conn (snd (doFetch e m u q p opts s)))
        = (case map_of (headers r) ''sortly-rate-limit-remaining'' of None \<Rightarrow> JNull | Some v \<Rightarrow> JStr v)"
    by (simp add: conn_doFetch [OF a] Headers_get_def header_names)
  show "rate_limit_reset (conn (snd (doFetch e m u q p opts s)))
        = (case map_of (headers r) ''sortly-rate-limit-reset'' of None \<Rightarrow> JNull | Some v \<Rightarrow> JStr v)"
    by (simp add: conn_doFetch [OF a] Headers_get_def header_names)
next
  assume a: "rp_response resp = Some rr
        \<and> \<not> (case statusCode resp of None \<Rightarrow> False | Some sc \<Rightarrow> 200 \<le> sc \<and> sc < 300)"
  then have st: "snd (handleResponse resp reqbody req this)
           = this\<lparr>rate_limit := js_or (header (in_headers rr) ''sortly-rate-limit-max'')
                                       (rate_limit this),
                   Sortly_rate_limit_remaining :=
                     js_or (header (in_headers rr) ''sortly-rate-limit-remaining'')
                           (Sortly_rate_limit_remaining this),
                   Sortly_rate_limit_reset :=
                     js_or (header (in_headers rr) ''sortly-rate-limit-reset'')
                           (Sortly_rate_limit_reset this),
                   request_id := header (in_headers rr) ''x-request-id''\<rparr>"
    using handleResponse_failure_state [of resp rr reqbody req this] by blast
  show "rate_limit (snd (handleResponse resp reqbody req this))
        = (case map_of (in_headers rr) ''sortly-rate-limit-max'' of
             None \<Rightarrow> rate_limit this
           | Some v \<Rightarrow> if v = [] then rate_limit this else JStr v)"
    by (simp add: st js_or_header)
  show "Sortly_rate_limit_remaining (snd (handleResponse resp reqbody req this))
        = (case map_of (in_headers rr) ''sortly-rate-limit-remaining'' of
             None \<Rightarrow> Sortly_rate_limit_remaining this
           | Some v \<Rightarrow> if v = [] then Sortly_rate_limit_remaining this else JStr v)"
    by (simp add: st js_or_header)
  show "Sortly_rate_limit_reset (snd (handleResponse resp reqbody req this))
        = (case map_of (in_headers rr) ''sortly-rate-limit-reset'' of
             None \<Rightarrow> Sortly_rate_limit_reset this
           | Some v \<Rightarrow> if v = [] then Sortly_rate_limit_reset this else JStr v)"
    by (simp add: st js_or_header)
next
  assume a: "rp_headers ok_resp = Some h \<and> statusCode ok_resp = Some sc \<and> 200 \<le> sc \<and> sc < 300"
  then have st: "snd (handleResponse ok_resp reqbody req this)
           = this\<lparr>rate_limit := header h ''sortly-rate-limit-max'',
                   Sortly_rate_limit_remaining := header h ''sortly-rate-limit-remaining'',
                   Sortly_rate_limit_reset := header h ''sortly-rate-limit-reset'',
                   request_id := header h ''x-request-id''\<rparr>"
    using handleResponse_success_state [of ok_resp h sc reqbody req this] by blast
  assume "map_of h ''sortly-rate-limit-max'' = Some v1"
  then show "rate_limit (snd (handleResponse ok_resp reqbody req this)) = JStr v1"
    by (simp add: st header_def)
next
  assume a: "rp_headers ok_resp = Some h \<and> statusCode ok_resp = Some sc \<and> 200 \<le> sc \<and> sc < 300"
  then have st: "snd (handleResponse ok_resp reqbody req this)
           = this\<lparr>rate_limit := header h ''sortly-rate-limit-max'',
                   Sortly_rate_limit_remaining := header h ''sortly-rate-limit-remaining'',
                   Sortly_rate_limit_reset := header h ''sortly-rate-limit-reset'',
                   request_id := header h ''x-request-id''\<rparr>"
    using handleResponse_success_state [of ok_resp h sc reqbody req this] by blast
  assume "map_of h ''sortly-rate-limit-remaining'' = Some v2"
  then show "Sortly_rate_limit_remaining (snd (handleResponse ok_resp reqbody req this)) = JStr v2"
    by (simp add: st header_def)
next
  assume a: "rp_headers ok_resp = Some h \<and> statusCode ok_resp = Some sc \<and> 200 \<le> sc \<and> sc < 300"
  then have st: "snd (handleResponse ok_resp reqbody req this)
           = this\<lparr>rate_limit := header h ''sortly-rate-limit-max'',
                   Sortly_rate_limit_remaining := header h ''sortly-rate-limit-remaining'',
                   Sortly_rate_limit_reset := header h ''sortly-rate-limit-reset'',
                   request_id := header h ''x-request-id''\<rparr>"
    using handleResponse_success_state [of ok_resp h sc reqbody req this] by blast
  assume "map_of h ''sortly-rate-limit-reset'' = Some v3"
  then show "Sortly_rate_limit_reset (snd (handleResponse ok_resp reqbody req this)) = JStr v3"
    by (simp add: st header_def)
qed

theorem rate_limit_fields_after_a_response_witness:
  "fetch (answering quota_answer)
     (fetchOpts (answering quota_answer) ''GET'' ''https://api.sortly.co/api/v1/items'' JNull
        JUndefined None (conn throttled)) = Some quota_answer
   \<and> rate_limit_max (conn (snd (doFetch (answering quota_answer) ''GET''
        ''https://api.sortly.co/api/v1/items'' JNull JUndefined None throttled))) = JStr ''1200''
   \<and> rate_limit_remaining (conn (snd (doFetch (answering quota_answer) ''GET''
        ''https://api.sortly.co/api/v1/items'' JNull JUndefined None throttled))) = JNull
   \<and> rate_limit_reset (conn (snd (doFetch (answering quota_answer) ''GET''
        ''https://api.sortly.co/api/v1/items'' JNull JUndefined None throttled))) = JStr ''17''
   \<and> rp_response (StatusCodeError 500 [(''sortly-rate-limit-reset'', ''9'')] JNull)
        = Some \<lparr>in_headers = [(''sortly-rate-limit-reset'', ''9'')], in_body = JNull\<rparr>
   \<and> rate_limit (snd (handleResponse (StatusCodeError 500 [(''sortly-rate-limit-reset'', ''9'')] JNull)
                         JNull (item_request ''GET'') Sortly)) = JNum 0
   \<and> Sortly_rate_limit_remaining
        (snd (handleResponse (StatusCodeError 500 [(''sortly-rate-limit-reset'', ''9'')] JNull)
                JNull (item_request ''GET'') Sortly)) = JNum 0
   \<and> Sortly_rate_limit_reset
        (snd (handleResponse (StatusCodeError 500 [(''sortly-rate-limit-reset'', ''9'')] JNull)
                JNull (item_request ''GET'') Sortly)) = JStr ''9''
   \<and> rp_headers (FullResponse 200 [(''sortly-rate-limit-max'', ''1200''),
                                     (''sortly-rate-limit-remaining'', ''1199''),
                                     (''sortly-rate-limit-reset'', ''60'')] JNull)
        = Some [(''sortly-rate-limit-max'', ''1200''), (''sortly-rate-limit-remaining'', ''1199''),
                (''sortly-rate-limit-reset'', ''60'')]
   \<and> rate_limit (snd (handleResponse
          (FullResponse 200 [(''sortly-rate-limit-max'', ''1200''),
                             (''sortly-rate-limit-remaining'', ''1199''),
                             (''sortly-rate-limit-reset'', ''60'')] JNull)
          JNull (item_request ''GET'') Sortly)) = JStr ''1200''
   \<and> Sortly_rate_limit_remaining (snd (handleResponse
          (FullResponse 200 [(''sortly-rate-limit-max'', ''1200''),
                             (''sortly-rate-limit-remaining'', ''1199''),
                             (''sortly-rate-limit-reset'', ''60'')] JNull)
          JNull (item_request ''GET'') Sortly)) = JStr ''1199''
   \<and> Sortly_rate_limit_reset (snd (handleResponse
          (FullResponse 200 [(''sortly-rate-limit-max'', ''1200''),
                             (''sortly-rate-limit-remaining'', ''1199''),
                             (''sortly-rate-limit-reset'', ''60'')] JNull)
          JNull (item_request ''GET'') Sortly)) = JStr ''60''
   \<and> map_of [(''sortly-rate-limit-max'', ''600'')] ''sortly-rate-limit-max'' = Some ''600''
   \<and> map_of [(''sortly-rate-limit-max'', ''600'')] ''sortly-rate-limit-reset'' = None
   \<and> rate_limit (snd (handleResponse
          (FullResponse 201 [(''sortly-rate-limit-max'', ''600'')] JNull)
          JNull (item_request ''POST'') Sortly)) = JStr ''600''"
proof -
  let ?h = "[(''sortly-rate-limit-max'', ''1200''), (''sortly-rate-limit-remaining'', ''1199''),
             (''sortly-rate-limit-reset'', ''60'')]"
  let ?bad = "StatusCodeError 500 [(''sortly-rate-limit-reset'', ''9'')] JNull"
  have h1: "fetch (answering quota_answer)
     (fetchOpts (answering quota_answer) ''GET'' ''https://api.sortly.co/api/v1/items'' JNull
        JUndefined None (conn throttled)) = Some quota_answer"
    by (simp add: answering_def)
  have h2: "rp_response ?bad
              = Some \<lparr>in_headers = [(''sortly-rate-limit-reset'', ''9'')], in_body = JNull\<rparr>"
    "\<not> (case statusCode ?bad of None \<Rightarrow> False | Some sc \<Rightarrow> 200 \<le> sc \<and> sc < 300)"
    by (simp_all add: StatusCodeError_def)
  have h3: "rp_headers (FullResponse 200 ?h JNull) = Some ?h"
    "statusCode (FullResponse 200 ?h JNull) = Some 200"
    "map_of ?h ''sortly-rate-limit-max'' = Some ''1200''"
    "map_of ?h ''sortly-rate-limit-remaining'' = Some ''1199''"
    "map_of ?h ''sortly-rate-limit-reset'' = Some ''60''"
    by (simp_all add: FullResponse_def)
  have h5: "rp_headers (FullResponse 201 [(''sortly-rate-limit-max'', ''600'')] JNull)
              = Some [(''sortly-rate-limit-max'', ''600'')]"
    "statusCode (FullResponse 201 [(''sortly-rate-limit-max'', ''600'')] JNull) = Some 201"
    by (simp_all add: FullResponse_def)
  from rate_limit_fields_after_a_response
         [where e = "answering quota_answer" and m = "''GET''"
            and u = "''https://api.sortly.co/api/v1/items''" and q = JNull and p = JUndefined
            and opts = None and s = throttled and r = quota_answer and resp = ?bad
            and rr = "\<lparr>in_headers = [(''sortly-rate-limit-reset'', ''9'')], in_body = JNull\<rparr>"
            and reqbody = JNull and req = "item_request ''GET''" and this = Sortly
            and ok_resp = "FullResponse 200 ?h JNull" and h = ?h and sc = 200
            and ?v1.0 = "''1200''" and ?v2.0 = "''1199''" and ?v3.0 = "''60''"]
       rate_limit_fields_after_a_response
         [where e = "answering quota_answer" and m = "''GET''"
            and u = "''https://api.sortly.co/api/v1/items''" and q = JNull and p = JUndefined
            and opts = None and s = throttled and r = quota_answer and resp = ?bad
            and rr = "\<lparr>in_headers = [(''sortly-rate-limit-reset'', ''9'')], in_body = JNull\<rparr>"
            and reqbody = JNull and req = "item_request ''POST''" and this = Sortly
            and ok_resp = "FullResponse 201 [(''sortly-rate-limit-max'', ''600'')] JNull"
            and h = "[(''sortly-rate-limit-max'', ''600'')]" and sc = 201
            and ?v1.0 = "''600''" and ?v2.0 = "''1199''" and ?v3.0 = "''60''"]
       h1 h2 h3 h5
  show ?thesis
    by (simp add: quota_answer_def Sortly_def)
qed

theorem absent_header_counterexample:
  "rate_limit_reset (conn throttled) = JStr ''30''
   \<and> map_of (headers plain_answer) ''sortly-rate-limit-reset'' = None
   \<and> rate_limit_reset (conn (snd (doFetch (answering plain_answer) ''GET''
        ''https://api.sortly.co/api/v1/items'' JNull JUndefined None throttled))) = JNull"
  by (simp add: throttled_def production_def plain_answer_def conn_doFetch answering_def
                Headers_get_def header_names)

text \<open>
  C5. A 401 or 403 answer. When the body decodes as JSON, SortlyConnector's doFetch raises
  an ApiAuthError whose message is the JSON text of the decoded body and whose status is
  the status of the answer. In Sortly 1.1.5, handleResponse raises a plain Error for
  both: \<open>Authorization Error ...\<close> for 401 and \<open>Unhandled Error ...\<close> for 403, each
  ending with the message of the rejection.
\<close>

theorem authorization_errors:
  "(fetch e (fetchOpts e m u q p opts (conn s)) = Some r \<and> (status r = 401 \<or> status r = 403)
        \<and> json r = Some b \<and> JSON_stringify b = Some ser \<longrightarrow>
      fst (doFetch e m u q p opts s) = Inl (ApiAuthError ser (JNum (int (status r)))))
   \<and> (statusCode resp = Some 401 \<and> rp_response resp = Some rr \<longrightarrow>
      fst (handleResponse resp reqbody req this)
        = Inl (Error (''Authorization Error on '' @ rq_method req @ '' '' @ rq_uri req
                      @ '' (HTTP-401). '' @ ToString (message resp))))
   \<and> (statusCode resp = Some 403 \<and> rp_response resp = Some rr \<longrightarrow>
      fst (handleResponse resp reqbody req this)
        = Inl (Error (''Unhandled Error on '' @ rq_method req @ '' '' @ rq_uri req
                      @ '' (HTTP-403). '' @ ToString (message resp))))"
proof (intro conjI impI)
  assume a: "fetch e (fetchOpts e m u q p opts (conn s)) = Some r \<and> (status r = 401 \<or> status r = 403)
        \<and> json r = Some b \<and> JSON_stringify b = Some ser"
  then have n: "\<not> ok r" by (auto simp: ok_def)
  from a have f: "fetch e (fetchOpts e m u q p opts (conn s)) = Some r" by simp
  have "fst (doFetch e m u q p opts s) = handleNotOk r"
    by (rule doFetch_not_ok [OF f n])
  also from a have "handleNotOk r = Inl (ApiAuthError ser (JNum (int (status r))))"
    using handleNotOk_auth [of r b ser] by blast
  finally show "fst (doFetch e m u q p opts s) = Inl (ApiAuthError ser (JNum (int (status r))))" .
next
  assume "statusCode resp = Some 401 \<and> rp_response resp = Some rr"
  then show "fst (handleResponse resp reqbody req this)
        = Inl (Error (''Authorization Error on '' @ rq_method req @ '' '' @ rq_uri req
                      @ '' (HTTP-401). '' @ ToString (message resp)))"
    by (simp add: handleResponse_def Let_def on_request_def decimal_401)
next
  assume "statusCode resp = Some 403 \<and> rp_response resp = Some rr"
  then show "fst (handleResponse resp reqbody req this)
        = Inl (Error (''Unhandled Error on '' @ rq_method req @ '' '' @ rq_uri req
                      @ '' (HTTP-403). '' @ ToString (message resp)))"
    by (simp add: handleResponse_def Let_def on_request_def decimal_403)
qed

theorem authorization_errors_witness:
  "fetch (answering unauthorized)
     (fetchOpts (answering unauthorized) ''GET'' ''https://api.sortly.co/api/v1/items'' JNull
        JUndefined None (conn production)) = Some unauthorized
   \<and> status unauthorized = 401
   \<and> fst (doFetch (answering unauthorized) ''GET'' ''https://api.sortly.co/api/v1/items'' JNull
            JUndefined None production)
       = Inl (ApiAuthError (''{'' @ dq @ ''error'' @ dq @ '':'' @ dq @ ''bad token'' @ dq @ ''}'')
                           (JNum 401))
   \<and> fetch (answering forbidden)
     (fetchOpts (answering forbidden) ''GET'' ''https://api.sortly.co/api/v1/items'' JNull
        JUndefined None (conn production)) = Some forbidden
   \<and> status forbidden = 403
   \<and> fst (doFetch (answering forbidden) ''GET'' ''https://api.sortly.co/api/v1/items'' JNull
            JUndefined None production)
       = Inl (ApiAuthError (''{'' @ dq @ ''error'' @ dq @ '':'' @ dq @ ''read only'' @ dq @ ''}'')
                           (JNum 403))
   \<and> statusCode (StatusCodeError 401 [] JNull) = Some 401
   \<and> fst (handleResponse (StatusCodeError 401 [] JNull) JNull (item_request ''GET'') Sortly)
       = Inl (Error ''Authorization Error on GET /items/7 (HTTP-401). 401 - null'')
   \<and> statusCode (StatusCodeError 403 [] JNull) = Some 403
   \<and> fst (handleResponse (StatusCodeError 403 [] JNull) JNull (item_request ''GET'') Sortly)
       = Inl (Error ''Unhandled Error on GET /items/7 (HTTP-403). 403 - null'')"
proof -
  let ?u = "''https://api.sortly.co/api/v1/items''"
  have h1: "fetch (answering unauthorized)
     (fetchOpts (answering unauthorized) ''GET'' ?u JNull JUndefined None (conn production))
       = Some unauthorized"
    "fetch (answering forbidden)
     (fetchOpts (answering forbidden) ''GET'' ?u JNull JUndefined None (conn production))
       = Some forbidden"
    by (simp_all add: answering_def)
  have h2: "status unauthorized = 401"
    "json unauthorized = Some (JObj [(''error'', JStr ''bad token'')])"
    "status forbidden = 403"
    "json forbidden = Some (JObj [(''error'', JStr ''read only'')])"
    by (simp_all add: unauthorized_def forbidden_def)
  have h3: "JSON_stringify (JObj [(''error'', JStr ''bad token'')])
              = Some (''{'' @ dq @ ''error'' @ dq @ '':'' @ dq @ ''bad token'' @ dq @ ''}'')"
    "JSON_stringify (JObj [(''error'', JStr ''read only'')])
              = Some (''{'' @ dq @ ''error'' @ dq @ '':'' @ dq @ ''read only'' @ dq @ ''}'')"
    by (simp_all add: quote_def escape_char_def)
  have h4: "statusCode (StatusCodeError 401 [] JNull) = Some 401"
    "rp_response (StatusCodeError 401 [] JNull) = Some \<lparr>in_headers = [], in_body = JNull\<rparr>"
    "statusCode (StatusCodeError 403 [] JNull) = Some 403"
    "rp_response (StatusCodeError 403 [] JNull) = Some \<lparr>in_headers = [], in_body = JNull\<rparr>"
    "ToString (message (StatusCodeError 401 [] JNull)) = ''401 - null''"
    "ToString (message (StatusCodeError 403 [] JNull)) = ''403 - null''"
    by (simp_all add: StatusCodeError_def stringified_def decimal_401 decimal_403)
  from authorization_errors
         [where e = "answering unauthorized" and m = "''GET''" and u = ?u and q = JNull
            and p = JUndefined and opts = None and s = production and r = unauthorized
            and b = "JObj [(''error'', JStr ''bad token'')]"
            and ser = "''{'' @ dq @ ''error'' @ dq @ '':'' @ dq @ ''bad token'' @ dq @ ''}''"
            and resp = "StatusCodeError 401 [] JNull"
            and rr = "\<lparr>in_headers = [], in_body = JNull\<rparr>" and reqbody = JNull
            and req = "item_request ''GET''" and this = Sortly]
       authorization_errors
         [where e = "answering forbidden" and m = "''GET''" and u = ?u and q = JNull
            and p = JUndefined and opts = None and s = production and r = forbidden
            and b = "JObj [(''error'', JStr ''read only'')]"
            and ser = "''{'' @ dq @ ''error'' @ dq @ '':'' @ dq @ ''read only'' @ dq @ ''}''"
            and resp = "StatusCodeError 403 [] JNull"
            and rr = "\<lparr>in_headers = [], in_body = JNull\<rparr>" and reqbody = JNull
            and req = "item_request ''GET''" and this = Sortly]
       h1 h2 h3 h4
  show ?thesis
    by (simp add: item_request_def)
qed

theorem authorization_errors_counterexample:
  "status unauthorized_html = 401
   \<and> fst (doFetch (answering unauthorized_html) ''GET'' ''https://api.sortly.co/api/v1/items''
            JNull JUndefined None production) = Inl (FetchError ''invalid-json'')"
  by (simp add: doFetch_def fetchOpts_def answering_def unauthorized_html_def ok_def
                handleNotOk_def Let_def)

text \<open>
  C6. A call of doFetch with \<open>options.headers = {"X-Trace": "1"}\<close>: the request goes out
  with the three default headers and the supplied one after them, in both versions of
  SortlyConnector. The supplied set does not replace the defaults.
\<close>

theorem supplied_headers_are_merged:
  "map req_headers
     (sent (snd (doFetch (answering plain_answer) ''GET'' ''https://api.sortly.co/api/v1/items''
                   JNull JUndefined
                   (Some \<lparr>opt_headers = Some [(''X-Trace'', ''1'')], opt_retries = JUndefined\<rparr>)
                   production)))
     = [[(''Content-Type'', ''application/json''),
         (''User-Agent'', ''Apigrate Sortly Connector/2.x''),
         (''Authorization'', ''Bearer secret''),
         (''X-Trace'', ''1'')]]
   \<and> map req_headers
     (sent (snd (doFetch_legacy (answering plain_answer) ''GET''
                   ''https://api.sortly.co/api/v1/items'' JNull JUndefined
                   (Some \<lparr>opt_headers = Some [(''X-Trace'', ''1'')], opt_retries = JUndefined\<rparr>)
                   production)))
     = [[(''Content-Type'', ''application/json''),
         (''User-Agent'', ''Apigrate Sortly Connector/2.x''),
         (''Authorization'', ''Bearer secret''),
         (''X-Trace'', ''1'')]]"
  by (simp add: sent_doFetch sent_doFetch_legacy fetchOpts_def Let_def default_headers_def
                Object_assign_def production_def SortlyConnector_def)

text \<open>
  C7. Statuses outside 2xx, 4xx and 5xx, in both versions of SortlyConnector. A 3xx
  answer whose body decodes as JSON is returned as the result of doFetch, and nothing is
  raised. An answer with a status below 200 makes doFetch raise.
\<close>

theorem statuses_outside_the_classified_ranges:
  assumes "fetch e (fetchOpts e m u q p opts (conn s)) = Some r"
  shows "(300 \<le> status r \<and> status r < 400 \<and> json r = Some b
            \<longrightarrow> fst (doFetch e m u q p opts s) = Inr b
              \<and> fst (doFetch_legacy e m u q p opts s) = Inr b)
       \<and> (status r < 200
            \<longrightarrow> (\<exists>ex. fst (doFetch e m u q p opts s) = Inl ex)
              \<and> (\<exists>ex. fst (doFetch_legacy e m u q p opts s) = Inl ex))"
proof (intro conjI impI)
  assume a: "300 \<le> status r \<and> status r < 400 \<and> json r = Some b"
  then have n: "\<not> ok r" by (simp add: ok_def)
  from a show "fst (doFetch e m u q p opts s) = Inr b"
    by (simp add: doFetch_not_ok [OF assms n] handleNotOk_redirect)
  from a show "fst (doFetch_legacy e m u q p opts s) = Inr b"
    by (simp add: doFetch_legacy_not_ok [OF assms n] handleNotOk_legacy_redirect)
next
  assume a: "status r < 200"
  then have n: "\<not> ok r" by (simp add: ok_def)
  from a show "\<exists>ex. fst (doFetch e m u q p opts s) = Inl ex"
    by (simp add: doFetch_not_ok [OF assms n] handleNotOk_informational)
  from a show "\<exists>ex. fst (doFetch_legacy e m u q p opts s) = Inl ex"
    by (simp add: doFetch_legacy_not_ok [OF assms n] handleNotOk_legacy_informational)
qed

theorem statuses_outside_the_classified_ranges_witness:
  "fetch (answering multiple_choices)
     (fetchOpts (answering multiple_choices) ''GET'' ''https://api.sortly.co/api/v1/items''
        JNull JUndefined None (conn production)) = Some multiple_choices
   \<and> status multiple_choices = 300
   \<and> fst (doFetch (answering multiple_choices) ''GET'' ''https://api.sortly.co/api/v1/items''
            JNull JUndefined None production)
       = Inr (JObj [(''location'', JStr ''/elsewhere'')])
   \<and> fst (doFetch_legacy (answering multiple_choices) ''GET''
            ''https://api.sortly.co/api/v1/items'' JNull JUndefined None production)
       = Inr (JObj [(''location'', JStr ''/elsewhere'')])
   \<and> fetch (answering early_hints)
     (fetchOpts (answering early_hints) ''GET'' ''https://api.sortly.co/api/v1/items'' JNull
        JUndefined None (conn production)) = Some early_hints
   \<and> status early_hints = 103
   \<and> (\<exists>ex. fst (doFetch (answering early_hints) ''GET'' ''https://api.sortly.co/api/v1/items''
                   JNull JUndefined None production) = Inl ex)
   \<and> (\<exists>ex. fst (doFetch_legacy (answering early_hints) ''GET''
                   ''https://api.sortly.co/api/v1/items'' JNull JUndefined None production) = Inl ex)"
proof -
  have h1: "fetch (answering multiple_choices)
     (fetchOpts (answering multiple_choices) ''GET'' ''https://api.sortly.co/api/v1/items''
        JNull JUndefined None (conn production)) = Some multiple_choices"
    by (simp add: answering_def)
  have h2: "fetch (answering early_hints)
     (fetchOpts (answering early_hints) ''GET'' ''https://api.sortly.co/api/v1/items'' JNull
        JUndefined None (conn production)) = Some early_hints"
    by (simp add: answering_def)
  have h3: "status multiple_choices = 300"
    "json multiple_choices = Some (JObj [(''location'', JStr ''/elsewhere'')])"
    "status early_hints = 103"
    by (simp_all add: multiple_choices_def early_hints_def)
  from statuses_outside_the_classified_ranges
         [OF h1, of "JObj [(''location'', JStr ''/elsewhere'')]"]
       statuses_outside_the_classified_ranges [OF h2, of JNull]
       h1 h2 h3
  show ?thesis by simp
qed

theorem redirect_counterexample:
  "status multiple_choices = 300
   \<and> fst (doFetch (answering multiple_choices) ''GET'' ''https://api.sortly.co/api/v1/items''
            JNull JUndefined None production)
       = Inr (JObj [(''location'', JStr ''/elsewhere'')])"
  by (simp add: doFetch_def fetchOpts_def answering_def multiple_choices_def ok_def
                handleNotOk_def Let_def)

text \<open>
  C8. createItem without a non-empty name (no item, or a falsy \<open>name\<close>), moveItem without
  an item id or with quantity undefined or null, and updateItem without an id (no item,
  or a falsy \<open>id\<close>) each raise an ApiError and hand back the state they were given: the
  connector is unchanged and nothing was put on the wire. A quantity of zero passes the
  check: moveItem then issues its POST request.
\<close>

theorem validation_raises_before_any_request:
  "((\<not> truthy item \<or> (\<exists>nm. js_get item ''name'' = Some nm \<and> \<not> truthy nm))
      \<longrightarrow> (\<exists>msg. createItem e item s = (Inl (ApiError msg JUndefined), s)))
   \<and> ((\<not> truthy item_id \<or> quantity = JUndefined \<or> quantity = JNull)
      \<longrightarrow> (\<exists>msg. moveItem e item_id quantity folder_id lzq s = (Inl (ApiError msg JUndefined), s)))
   \<and> ((\<not> truthy item \<or> (\<exists>i. js_get item ''id'' = Some i \<and> \<not> truthy i))
      \<longrightarrow> (\<exists>msg. updateItem e item s = (Inl (ApiError msg JUndefined), s)))
   \<and> (truthy item_id
      \<longrightarrow> (\<exists>rq. sent (snd (moveItem e item_id (JNum 0) folder_id lzq s)) = sent s @ [rq]
                \<and> req_method rq = ''POST''))"
proof (intro conjI impI)
  assume "\<not> truthy item \<or> (\<exists>nm. js_get item ''name'' = Some nm \<and> \<not> truthy nm)"
  then show "\<exists>msg. createItem e item s = (Inl (ApiError msg JUndefined), s)"
    by (auto simp: createItem_def new_ApiError_def)
next
  assume "\<not> truthy item_id \<or> quantity = JUndefined \<or> quantity = JNull"
  then show "\<exists>msg. moveItem e item_id quantity folder_id lzq s = (Inl (ApiError msg JUndefined), s)"
    by (auto simp: moveItem_def new_ApiError_def)
next
  assume "\<not> truthy item \<or> (\<exists>i. js_get item ''id'' = Some i \<and> \<not> truthy i)"
  then show "\<exists>msg. updateItem e item s = (Inl (ApiError msg JUndefined), s)"
    by (auto simp: updateItem_def new_ApiError_def)
next
  assume "truthy item_id"
  then show "\<exists>rq. sent (snd (moveItem e item_id (JNum 0) folder_id lzq s)) = sent s @ [rq]
                \<and> req_method rq = ''POST''"
    by (simp add: moveItem_def Let_def snd_case sent_doFetch fetchOpts_def)
qed

theorem validation_raises_before_any_request_witness:
  "(\<exists>nm. js_get (JObj [(''name'', JStr [])]) ''name'' = Some nm \<and> \<not> truthy nm)
   \<and> (\<exists>msg. createItem (answering \<lparr>status = 200, headers = [], json = None\<rparr>)
                (JObj [(''name'', JStr [])]) production
              = (Inl (ApiError msg JUndefined), production))
   \<and> (JUndefined = JUndefined \<or> JUndefined = JNull)
   \<and> (\<exists>msg. moveItem (answering \<lparr>status = 200, headers = [], json = None\<rparr>)
                (JNum 5) JUndefined (JNum 10) JUndefined production
              = (Inl (ApiError msg JUndefined), production))
   \<and> (\<exists>i. js_get (JObj [(''name'', JStr ''Widget'')]) ''id'' = Some i \<and> \<not> truthy i)
   \<and> (\<exists>msg. updateItem (answering \<lparr>status = 200, headers = [], json = None\<rparr>)
                (JObj [(''name'', JStr ''Widget'')]) production
              = (Inl (ApiError msg JUndefined), production))
   \<and> truthy (JNum 5)
   \<and> (\<exists>rq. sent (snd (moveItem (answering \<lparr>status = 200, headers = [], json = None\<rparr>)
                         (JNum 5) (JNum 0) (JNum 10) JUndefined production))
              = sent production @ [rq] \<and> req_method rq = ''POST'')"
  using validation_raises_before_any_request
          [where item = "JObj [(''name'', JStr [])]" and item_id = "JNum 5"
             and quantity = JUndefined and folder_id = "JNum 10" and lzq = JUndefined
             and e = "answering \<lparr>status = 200, headers = [], json = None\<rparr>" and s = production]
        validation_raises_before_any_request
          [where item = "JObj [(''name'', JStr ''Widget'')]" and item_id = "JNum 5"
             and quantity = JUndefined and folder_id = "JNum 10" and lzq = JUndefined
             and e = "answering \<lparr>status = 200, headers = [], json = None\<rparr>" and s = production]
  by (simp add: production_def)

text \<open>
  C9. \<open>createItem({name: "Widget"})\<close> puts one POST request for \<open><base_url>/items\<close> on the
  wire, with the default headers and the body \<open>{"name":"Widget"}\<close>; when the answer is
  201 with the body \<open>{"data":{"id":42,"name":"Widget"}}\<close>, the operation returns the
  inner object \<open>{"id":42,"name":"Widget"}\<close>.
\<close>

theorem createItem_Widget:
  assumes "fetch e (fetchOpts e ''POST'' (ToString (base_url (conn s)) @ ''/items'') JNull
                      (JObj [(''name'', JStr ''Widget'')]) None (conn s))
           = Some \<lparr>status = 201, headers = h,
                   json = Some (JObj [(''data'', JObj [(''id'', JNum 42),
                                                        (''name'', JStr ''Widget'')])])\<rparr>"
  shows "fst (createItem e (JObj [(''name'', JStr ''Widget'')]) s)
           = Inr (JObj [(''id'', JNum 42), (''name'', JStr ''Widget'')])
       \<and> sent (snd (createItem e (JObj [(''name'', JStr ''Widget'')]) s))
           = sent s @ [\<lparr>req_method = ''POST'', url = ToString (base_url (conn s)) @ ''/items'',
                        req_headers = default_headers (conn s),
                        req_body = Some (''{'' @ dq @ ''name'' @ dq @ '':'' @ dq @ ''Widget''
                                         @ dq @ ''}'')\<rparr>]"
  using assms
  by (simp add: createItem_def doFetch_def fetchOpts_def Let_def ok_def data_or_null_def
                quote_def escape_char_def)


theorem createItem_Widget_witness:
  "fetch (answering \<lparr>status = 201, headers = [],
                      json = Some (JObj [(''data'', JObj [(''id'', JNum 42),
                                                           (''name'', JStr ''Widget'')])])\<rparr>)
     (fetchOpts (answering \<lparr>status = 201, headers = [],
                      json = Some (JObj [(''data'', JObj [(''id'', JNum 42),
                                                           (''name'', JStr ''Widget'')])])\<rparr>)
        ''POST'' (ToString (base_url (conn production)) @ ''/items'') JNull
        (JObj [(''name'', JStr ''Widget'')]) None (conn production))
     = Some \<lparr>status = 201, headers = [],
             json = Some (JObj [(''data'', JObj [(''id'', JNum 42),
                                                  (''name'', JStr ''Widget'')])])\<rparr>
   \<and> fst (createItem (answering \<lparr>status = 201, headers = [],
                      json = Some (JObj [(''data'', JObj [(''id'', JNum 42),
                                                           (''name'', JStr ''Widget'')])])\<rparr>)
            (JObj [(''name'', JStr ''Widget'')]) production)
       = Inr (JObj [(''id'', JNum 42), (''name'', JStr ''Widget'')])
   \<and> sent (snd (createItem (answering \<lparr>status = 201, headers = [],
                      json = Some (JObj [(''data'', JObj [(''id'', JNum 42),
                                                           (''name'', JStr ''Widget'')])])\<rparr>)
                  (JObj [(''name'', JStr ''Widget'')]) production))
       = [\<lparr>req_method = ''POST'', url = ''https://api.sortly.co/api/v1/items'',
           req_headers = [(''Content-Type'', ''application/json''),
                          (''User-Agent'', ''Apigrate Sortly Connector/2.x''),
                          (''Authorization'', ''Bearer secret'')],
           req_body = Some (''{'' @ dq @ ''name'' @ dq @ '':'' @ dq @ ''Widget'' @ dq @ ''}'')\<rparr>]"
proof -
  let ?r = "\<lparr>status = 201, headers = [],
              json = Some (JObj [(''data'', JObj [(''id'', JNum 42),
                                                   (''name'', JStr ''Widget'')])])\<rparr>"
  have h: "fetch (answering ?r)
             (fetchOpts (answering ?r) ''POST'' (ToString (base_url (conn production)) @ ''/items'')
                JNull (JObj [(''name'', JStr ''Widget'')]) None (conn production)) = Some ?r"
    by (simp add: answering_def)
  from createItem_Widget [OF h] h show ?thesis
    by (simp add: production_def SortlyConnector_def default_headers_def)
qed

text \<open>
  C10. When the request that createItem, fetchItem or moveItem put on the wire is answered
  with a 2xx status, and the decoded body is falsy or has no \<open>data\<close> property (or the
  status is 204, for which doFetch returns the empty object), the operation returns null.
\<close>

theorem missing_data_gives_null:
  assumes "fetch e rq = Some r" and "ok r"
    and "status r = 204 \<or> (\<exists>b. json r = Some b \<and> (\<not> truthy b \<or> js_get b ''data'' = Some JUndefined))"
  shows "(sent (snd (createItem e item s)) = sent s @ [rq]
            \<longrightarrow> fst (createItem e item s) = Inr JNull)
       \<and> (sent (snd (fetchItem e ident incl s)) = sent s @ [rq]
            \<longrightarrow> fst (fetchItem e ident incl s) = Inr JNull)
       \<and> (sent (snd (moveItem e item_id quantity folder_id lzq s)) = sent s @ [rq]
            \<longrightarrow> fst (moveItem e item_id quantity folder_id lzq s) = Inr JNull)"
proof (intro conjI impI)
  let ?u = "ToString (base_url (conn s)) @ ''/items''"
  assume a: "sent (snd (createItem e item s)) = sent s @ [rq]"
  then have v: "truthy item" and n: "\<exists>nm. js_get item ''name'' = Some nm \<and> truthy nm"
    by (auto simp: createItem_def split: if_splits option.splits)
  with a have "rq = fetchOpts e ''POST'' ?u JNull item None (conn s)"
    by (auto simp: createItem_def snd_case sent_doFetch)
  with assms obtain res s' where
    "doFetch e ''POST'' ?u JNull item None s = (Inr res, s')" "data_or_null res = Inr JNull"
    using doFetch_answer_null [of e "''POST''" ?u JNull item None s r] by auto
  with v n show "fst (createItem e item s) = Inr JNull"
    by (auto simp: createItem_def)
next
  let ?u = "ToString (base_url (conn s)) @ ''/items/'' @ ToString ident"
  let ?q = "if truthy incl then JObj [(''include'', incl)] else JNull"
  assume a: "sent (snd (fetchItem e ident incl s)) = sent s @ [rq]"
  then have v: "truthy ident"
    by (auto simp: fetchItem_def split: if_splits)
  with a have "rq = fetchOpts e ''GET'' ?u ?q JUndefined None (conn s)"
    using sent_doFetch [of e "''GET''" ?u ?q JUndefined None s]
    by (cases "doFetch e ''GET'' ?u ?q JUndefined None s")
       (auto simp: fetchItem_def Let_def split: sum.splits if_splits)
  with assms obtain res s' where
    "doFetch e ''GET'' ?u ?q JUndefined None s = (Inr res, s')" "data_or_null res = Inr JNull"
    using doFetch_answer_null [of e "''GET''" ?u ?q JUndefined None s r] by auto
  with v show "fst (fetchItem e ident incl s) = Inr JNull"
    by (simp add: fetchItem_def Let_def)
next
  let ?u = "ToString (base_url (conn s)) @ ''/items/'' @ ToString item_id @ ''/move''"
  let ?p = "JObj ([(''quantity'', quantity)]
                   @ (if truthy folder_id then [(''folder_id'', folder_id)] else [])
                   @ (if lzq \<noteq> JUndefined \<and> lzq \<noteq> JNull
                      then [(''leave_zero_quantity'', lzq)] else []))"
  assume a: "sent (snd (moveItem e item_id quantity folder_id lzq s)) = sent s @ [rq]"
  then have v: "truthy item_id" "quantity \<noteq> JUndefined" "quantity \<noteq> JNull"
    by (auto simp: moveItem_def split: if_splits)
  with a have "rq = fetchOpts e ''POST'' ?u JNull ?p None (conn s)"
    by (simp add: moveItem_def Let_def snd_case sent_doFetch)
  with assms obtain res s' where
    "doFetch e ''POST'' ?u JNull ?p None s = (Inr res, s')" "data_or_null res = Inr JNull"
    using doFetch_answer_null [of e "''POST''" ?u JNull ?p None s r] by auto
  with v show "fst (moveItem e item_id quantity folder_id lzq s) = Inr JNull"
    by (simp add: moveItem_def Let_def)
qed

theorem missing_data_gives_null_witness:
  "ok no_data_answer
   \<and> json no_data_answer = Some (JObj [(''meta'', JNum 1)])
   \<and> js_get (JObj [(''meta'', JNum 1)]) ''data'' = Some JUndefined
   \<and> sent (snd (createItem (answering no_data_answer) (JObj [(''name'', JStr ''Widget'')])
                  production))
       = sent production @
           [fetchOpts (answering no_data_answer) ''POST'' ''https://api.sortly.co/api/v1/items''
              JNull (JObj [(''name'', JStr ''Widget'')]) None (conn production)]
   \<and> fst (createItem (answering no_data_answer) (JObj [(''name'', JStr ''Widget'')]) production)
       = Inr JNull
   \<and> sent (snd (fetchItem (answering no_data_answer) (JNum 7) JUndefined production))
       = sent production @
           [fetchOpts (answering no_data_answer) ''GET'' ''https://api.sortly.co/api/v1/items/7''
              JNull JUndefined None (conn production)]
   \<and> fst (fetchItem (answering no_data_answer) (JNum 7) JUndefined production) = Inr JNull
   \<and> sent (snd (moveItem (answering no_data_answer) (JNum 5) (JNum 2) (JNum 10) JUndefined
                  production))
       = sent production @
           [fetchOpts (answering no_data_answer) ''POST''
              ''https://api.sortly.co/api/v1/items/5/move'' JNull
              (JObj [(''quantity'', JNum 2), (''folder_id'', JNum 10)]) None (conn production)]
   \<and> fst (moveItem (answering no_data_answer) (JNum 5) (JNum 2) (JNum 10) JUndefined production)
       = Inr JNull"
proof -
  let ?e = "answering no_data_answer"
  let ?c = "fetchOpts ?e ''POST'' ''https://api.sortly.co/api/v1/items'' JNull
              (JObj [(''name'', JStr ''Widget'')]) None (conn production)"
  let ?f = "fetchOpts ?e ''GET'' ''https://api.sortly.co/api/v1/items/7'' JNull JUndefined None
              (conn production)"
  let ?m = "fetchOpts ?e ''POST'' ''https://api.sortly.co/api/v1/items/5/move'' JNull
              (JObj [(''quantity'', JNum 2), (''folder_id'', JNum 10)]) None (conn production)"
  have h1: "fetch ?e rq = Some no_data_answer" for rq
    by (simp add: answering_def)
  have h2: "ok no_data_answer"
    by (simp add: ok_def no_data_answer_def)
  have h3: "json no_data_answer = Some (JObj [(''meta'', JNum 1)])"
    "js_get (JObj [(''meta'', JNum 1)]) ''data'' = Some JUndefined"
    by (simp_all add: no_data_answer_def)
  then have h4: "status no_data_answer = 204
       \<or> (\<exists>b. json no_data_answer = Some b \<and> (\<not> truthy b \<or> js_get b ''data'' = Some JUndefined))"
    by simp
  have base: "ToString (base_url (conn production)) = ''https://api.sortly.co/api/v1''"
    by (simp add: production_def SortlyConnector_def)
  have n: "Number_toString 7 = ''7''" "Number_toString 5 = ''5''"
    by code_simp+
  have s1: "sent (snd (createItem ?e (JObj [(''name'', JStr ''Widget'')]) production))
              = sent production @ [?c]"
    by (simp add: createItem_def snd_case sent_doFetch base)
  have s2: "sent (snd (fetchItem ?e (JNum 7) JUndefined production)) = sent production @ [?f]"
    using sent_doFetch [of ?e "''GET''" "''https://api.sortly.co/api/v1/items/7''" JNull JUndefined
                           None production]
    by (cases "doFetch ?e ''GET'' ''https://api.sortly.co/api/v1/items/7'' JNull JUndefined None
                 production")
       (auto simp: fetchItem_def Let_def base n split: sum.splits)
  have s3: "sent (snd (moveItem ?e (JNum 5) (JNum 2) (JNum 10) JUndefined production))
              = sent production @ [?m]"
    by (simp add: moveItem_def Let_def snd_case sent_doFetch base n)
  from missing_data_gives_null
         [where e = ?e and rq = ?c and r = no_data_answer and s = production
            and item = "JObj [(''name'', JStr ''Widget'')]", OF h1 h2 h4]
       missing_data_gives_null
         [where e = ?e and rq = ?f and r = no_data_answer and s = production
            and ident = "JNum 7" and incl = JUndefined, OF h1 h2 h4]
       missing_data_gives_null
         [where e = ?e and rq = ?m and r = no_data_answer and s = production
            and item_id = "JNum 5" and quantity = "JNum 2" and folder_id = "JNum 10"
            and lzq = JUndefined, OF h1 h2 h4]
       h2 h3 s1 s2 s3
  show ?thesis by blast
qed

end
